theory Spec2Isabelle
  imports Main "HOL-Library.AList"
begin

section \<open>Text and bytes\<close>

text \<open>
  A Python \<open>str\<close> is a sequence of Unicode code points, so \<open>len\<close> counts code points;
  a \<open>bytes\<close> value is a sequence of octets. \<open>py\<close> writes a \<open>str\<close> literal.
\<close>

type_synonym pystr = "nat list"
type_synonym bytes = "string"

definition py :: "string \<Rightarrow> pystr" where
  "py cs = map of_char cs"

text \<open>\<open>str.isspace\<close> for one character and \<open>str.strip()\<close> with no argument.\<close>

definition is_space :: "nat \<Rightarrow> bool" where
  "is_space c \<longleftrightarrow>
     (9 \<le> c \<and> c \<le> 13) \<or> (28 \<le> c \<and> c \<le> 32) \<or> c = 133 \<or> c = 160 \<or> c = 5760 \<or>
     (8192 \<le> c \<and> c \<le> 8202) \<or> c = 8232 \<or> c = 8233 \<or> c = 8239 \<or> c = 8287 \<or>
     c = 12288"

definition strip :: "pystr \<Rightarrow> pystr" where
  "strip s = rev (dropWhile is_space (rev (dropWhile is_space s)))"

text \<open>
  \<open>str.encode('utf-8')\<close>: a surrogate code point raises \<open>UnicodeEncodeError\<close>
  (the value \<open>None\<close>).
\<close>

definition utf8_char :: "nat \<Rightarrow> bytes option" where
  "utf8_char c =
     (if c < 0x80 then Some [char_of c]
      else if c < 0x800 then Some [char_of (0xC0 + c div 64), char_of (0x80 + c mod 64)]
      else if 0xD800 \<le> c \<and> c \<le> 0xDFFF then None
      else if c < 0x10000 then
        Some [char_of (0xE0 + c div 4096), char_of (0x80 + c div 64 mod 64),
              char_of (0x80 + c mod 64)]
      else if c < 0x110000 then
        Some [char_of (0xF0 + c div 262144), char_of (0x80 + c div 4096 mod 64),
              char_of (0x80 + c div 64 mod 64), char_of (0x80 + c mod 64)]
      else None)"

fun utf8_encode :: "pystr \<Rightarrow> bytes option" where
  "utf8_encode [] = Some []"
| "utf8_encode (c # cs) =
     (case utf8_char c of
        None \<Rightarrow> None
      | Some b \<Rightarrow> (case utf8_encode cs of None \<Rightarrow> None | Some bs \<Rightarrow> Some (b @ bs)))"

text \<open>
  \<open>bytes.decode('utf-8')\<close>, strict: a truncated, overlong or surrogate sequence raises
  \<open>UnicodeDecodeError\<close> (the value \<open>None\<close>).
\<close>

definition cont :: "char \<Rightarrow> nat option" where
  "cont b = (let n = of_char b :: nat in if 0x80 \<le> n \<and> n < 0xC0 then Some (n - 0x80) else None)"

fun utf8_decode :: "bytes \<Rightarrow> pystr option" where
  "utf8_decode [] = Some []"
| "utf8_decode (b # bs) =
     (let n = of_char b :: nat in
      if n < 0x80 then map_option (Cons n) (utf8_decode bs)
      else if n < 0xC2 then None
      else if n < 0xE0 then
        (case bs of
           b1 # r \<Rightarrow>
             (case cont b1 of
                Some x1 \<Rightarrow> map_option (Cons ((n - 0xC0) * 64 + x1)) (utf8_decode r)
              | None \<Rightarrow> None)
         | [] \<Rightarrow> None)
      else if n < 0xF0 then
        (case bs of
           b1 # b2 # r \<Rightarrow>
             (case (cont b1, cont b2) of
                (Some x1, Some x2) \<Rightarrow>
                  (let v = (n - 0xE0) * 4096 + x1 * 64 + x2
                   in if v < 0x800 \<or> (0xD800 \<le> v \<and> v \<le> 0xDFFF) then None
                      else map_option (Cons v) (utf8_decode r))
              | _ \<Rightarrow> None)
         | _ \<Rightarrow> None)
      else if n < 0xF5 then
        (case bs of
           b1 # b2 # b3 # r \<Rightarrow>
             (case (cont b1, cont b2, cont b3) of
                (Some x1, Some x2, Some x3) \<Rightarrow>
                  (let v = (n - 0xF0) * 262144 + x1 * 4096 + x2 * 64 + x3
                   in if v < 0x10000 \<or> 0x10FFFF < v then None
                      else map_option (Cons v) (utf8_decode r))
              | _ \<Rightarrow> None)
         | _ \<Rightarrow> None)
      else None)"

section \<open>JSON values and \<open>json.dumps\<close>\<close>

text \<open>
  The values \<open>json.loads\<close> returns and \<open>json.dumps\<close> accepts: \<open>None\<close>, \<open>bool\<close>,
  \<open>int\<close>, \<open>float\<close>, \<open>str\<close>, \<open>list\<close> and \<open>dict\<close> with \<open>str\<close> keys. A dictionary is
  its items in insertion order. Floating-point arithmetic is not modelled: a \<open>float\<close> is
  carried as the text \<open>json.dumps\<close> writes for it (\<open>float.__repr__\<close>, or \<open>NaN\<close>,
  \<open>Infinity\<close>, \<open>-Infinity\<close>), and \<open>json.loads\<close> keeps the number literal it read where
  Python converts it with \<open>float()\<close>.
\<close>

datatype json =
    JNull
  | JBool bool
  | JInt int
  | JFloat pystr
  | JStr pystr
  | JArr "json list"
  | JObj "(pystr \<times> json) list"

text \<open>\<open>int.__repr__\<close>: decimal digits, most significant first.\<close>

fun digits :: "nat \<Rightarrow> pystr" where
  "digits n = (if n < 10 then [48 + n] else digits (n div 10) @ [48 + n mod 10])"

declare digits.simps [simp del]

definition int_repr :: "int \<Rightarrow> pystr" where
  "int_repr i = (if i < 0 then 45 # digits (nat (- i)) else digits (nat i))"

text \<open>
  \<open>py_encode_basestring_ascii\<close> (\<open>ensure_ascii=True\<close>, the default): the quote, the
  backslash and every character outside \<open>' '..'~'\<close> are escaped; a character above
  \<open>0xFFFF\<close> becomes a surrogate pair of \<open>\uXXXX\<close> escapes.
\<close>

definition hex_digit :: "nat \<Rightarrow> nat" where
  "hex_digit d = (if d < 10 then 48 + d else 87 + d)"

definition u_escape :: "nat \<Rightarrow> pystr" where
  "u_escape n =
     [92, 117, hex_digit (n div 4096 mod 16), hex_digit (n div 256 mod 16),
      hex_digit (n div 16 mod 16), hex_digit (n mod 16)]"

definition escape_char :: "nat \<Rightarrow> pystr" where
  "escape_char c =
     (if c = 34 then [92, 34]
      else if c = 92 then [92, 92]
      else if c = 10 then [92, 110]
      else if c = 13 then [92, 114]
      else if c = 9 then [92, 116]
      else if c = 12 then [92, 102]
      else if c = 8 then [92, 98]
      else if 32 \<le> c \<and> c \<le> 126 then [c]
      else if c < 0x10000 then u_escape c
      else u_escape (0xD800 + (c - 0x10000) div 1024 mod 1024) @
           u_escape (0xDC00 + (c - 0x10000) mod 1024))"

definition encode_basestring_ascii :: "pystr \<Rightarrow> pystr" where
  "encode_basestring_ascii s = 34 # concat (map escape_char s) @ [34]"

fun join :: "pystr \<Rightarrow> pystr list \<Rightarrow> pystr" where
  "join sep [] = []"
| "join sep [x] = x"
| "join sep (x # y # ys) = x @ sep @ join sep (y # ys)"

text \<open>
  \<open>json.dumps(data)\<close> with the default arguments: separators \<open>', '\<close> and \<open>': '\<close>, no
  indentation, keys in insertion order.
\<close>

fun dumps :: "json \<Rightarrow> pystr" where
  "dumps JNull = py ''null''"
| "dumps (JBool b) = (if b then py ''true'' else py ''false'')"
| "dumps (JInt i) = int_repr i"
| "dumps (JFloat t) = t"
| "dumps (JStr s) = encode_basestring_ascii s"
| "dumps (JArr xs) = 91 # join (py '', '') (map dumps xs) @ [93]"
| "dumps (JObj kvs) =
     123 # join (py '', '')
             (map (\<lambda>kv. encode_basestring_ascii (fst kv) @ py '': '' @ dumps (snd kv)) kvs)
       @ [125]"

section \<open>\<open>json.loads\<close>\<close>

text \<open>\<open>WHITESPACE.match\<close>: skips blanks, tabs, newlines and carriage returns.\<close>

fun skip_ws :: "pystr \<Rightarrow> pystr" where
  "skip_ws [] = []"
| "skip_ws (c # cs) = (if c = 32 \<or> c = 9 \<or> c = 10 \<or> c = 13 then skip_ws cs else c # cs)"

definition hex_val :: "nat \<Rightarrow> nat option" where
  "hex_val c =
     (if 48 \<le> c \<and> c \<le> 57 then Some (c - 48)
      else if 97 \<le> c \<and> c \<le> 102 then Some (c - 87)
      else if 65 \<le> c \<and> c \<le> 70 then Some (c - 55)
      else None)"

text \<open>The four characters after \<open>\u\<close>; anything but four hexadecimal digits is an error.\<close>

definition decode_uXXXX :: "pystr \<Rightarrow> nat option" where
  "decode_uXXXX s =
     (case s of
        [a, b, c, d] \<Rightarrow>
          (case (hex_val a, hex_val b, hex_val c, hex_val d) of
             (Some w, Some x, Some y, Some z) \<Rightarrow> Some (w * 4096 + x * 256 + y * 16 + z)
           | _ \<Rightarrow> None)
      | _ \<Rightarrow> None)"

text \<open>The table \<open>BACKSLASH\<close> of one-letter escapes.\<close>

definition backslash :: "nat \<Rightarrow> nat option" where
  "backslash e =
     (if e = 34 then Some 34
      else if e = 92 then Some 92
      else if e = 47 then Some 47
      else if e = 98 then Some 8
      else if e = 102 then Some 12
      else if e = 110 then Some 10
      else if e = 114 then Some 13
      else if e = 116 then Some 9
      else None)"

definition cons_char :: "nat \<Rightarrow> (pystr \<times> pystr) option \<Rightarrow> (pystr \<times> pystr) option" where
  "cons_char c r = (case r of None \<Rightarrow> None | Some (s, rest) \<Rightarrow> Some (c # s, rest))"

text \<open>
  \<open>scanstring\<close> (strict), from the character after the opening quote: the decoded string
  and the text after the closing quote. A raw control character, a bad escape and a
  missing closing quote are errors. A high surrogate escape directly followed by a low
  surrogate escape is joined into one character.
\<close>

fun scanstring :: "pystr \<Rightarrow> (pystr \<times> pystr) option" where
  "scanstring [] = None"
| "scanstring (c # cs) =
     (if c = 34 then Some ([], cs)
      else if c = 92 then
        (case cs of
           [] \<Rightarrow> None
         | e # cs1 \<Rightarrow>
             if e = 117 then
               (case decode_uXXXX (take 4 cs1) of
                  None \<Rightarrow> None
                | Some u \<Rightarrow>
                    if 0xD800 \<le> u \<and> u \<le> 0xDBFF \<and> take 2 (drop 4 cs1) = [92, 117] then
                      (case decode_uXXXX (take 4 (drop 6 cs1)) of
                         None \<Rightarrow> None
                       | Some u2 \<Rightarrow>
                           if 0xDC00 \<le> u2 \<and> u2 \<le> 0xDFFF then
                             cons_char (0x10000 + (u - 0xD800) * 1024 + (u2 - 0xDC00))
                               (scanstring (drop 10 cs1))
                           else cons_char u (scanstring (drop 4 cs1)))
                    else cons_char u (scanstring (drop 4 cs1)))
             else
               (case backslash e of
                  None \<Rightarrow> None
                | Some d \<Rightarrow> cons_char d (scanstring cs1)))
      else if c < 32 then None
      else cons_char c (scanstring cs))"

text \<open>
  \<open>NUMBER_RE\<close>, \<open>(-?(?:0|[1-9][0-9]*))(\.[0-9]+)?([eE][-+]?[0-9]+)?\<close>, group by group.
\<close>

definition is_digit :: "nat \<Rightarrow> bool" where
  "is_digit c \<longleftrightarrow> 48 \<le> c \<and> c \<le> 57"

definition match_integer :: "pystr \<Rightarrow> (pystr \<times> pystr) option" where
  "match_integer s =
     (let (sign, r) = (case s of [] \<Rightarrow> ([], s) | c # r \<Rightarrow> if c = 45 then ([45], r) else ([], s))
      in case r of
           [] \<Rightarrow> None
         | d # r' \<Rightarrow>
             if d = 48 then Some (sign @ [48], r')
             else if 49 \<le> d \<and> d \<le> 57 then
               Some (sign @ d # takeWhile is_digit r', dropWhile is_digit r')
             else None)"

definition match_frac :: "pystr \<Rightarrow> pystr \<times> pystr" where
  "match_frac s =
     (case s of
        c # d # r \<Rightarrow>
          if c = 46 \<and> is_digit d then (c # d # takeWhile is_digit r, dropWhile is_digit r)
          else ([], s)
      | _ \<Rightarrow> ([], s))"

definition match_exp :: "pystr \<Rightarrow> pystr \<times> pystr" where
  "match_exp s =
     (case s of
        [] \<Rightarrow> ([], s)
      | c # r \<Rightarrow>
          if c = 101 \<or> c = 69 then
            (let (sg, r1) =
                   (case r of [] \<Rightarrow> ([], r) | x # r' \<Rightarrow> if x = 45 \<or> x = 43 then ([x], r') else ([], r))
             in case r1 of
                  [] \<Rightarrow> ([], s)
                | d # r2 \<Rightarrow>
                    if is_digit d then (c # sg @ d # takeWhile is_digit r2, dropWhile is_digit r2)
                    else ([], s))
          else ([], s))"

definition nat_of_digits :: "pystr \<Rightarrow> nat" where
  "nat_of_digits ds = foldl (\<lambda>a d. 10 * a + (d - 48)) 0 ds"

definition parse_int :: "pystr \<Rightarrow> int" where
  "parse_int s =
     (case s of
        [] \<Rightarrow> 0
      | c # r \<Rightarrow> if c = 45 then - int (nat_of_digits r) else int (nat_of_digits s))"

definition match_number :: "pystr \<Rightarrow> (json \<times> pystr) option" where
  "match_number s =
     (case match_integer s of
        None \<Rightarrow> None
      | Some (i, r) \<Rightarrow>
          (let (f, r1) = match_frac r; (e, r2) = match_exp r1
           in if f \<noteq> [] \<or> e \<noteq> [] then Some (JFloat (i @ f @ e), r2)
              else Some (JInt (parse_int i), r2)))"

text \<open>\<open>dict(pairs)\<close>: a repeated key keeps its first position and takes the last value.\<close>

definition dict_of :: "(pystr \<times> json) list \<Rightarrow> (pystr \<times> json) list" where
  "dict_of pairs = foldl (\<lambda>d kv. AList.update (fst kv) (snd kv) d) [] pairs"

text \<open>
  \<open>scan_once\<close> with \<open>JSONArray\<close> and \<open>JSONObject\<close>. The first argument bounds the
  nesting of calls (Python stops with \<open>RecursionError\<close> at its own recursion limit);
  every call consumes a character, so \<open>loads\<close> passes a bound above the length of the
  text. \<open>array_items\<close> and \<open>object_items\<close> are the \<open>while True\<close> loops of the two;
  \<open>object_items\<close> starts after the opening quote of a key.
\<close>

fun scan_once :: "nat \<Rightarrow> pystr \<Rightarrow> (json \<times> pystr) option"
  and JSONArray :: "nat \<Rightarrow> pystr \<Rightarrow> (json \<times> pystr) option"
  and array_items :: "nat \<Rightarrow> pystr \<Rightarrow> (json list \<times> pystr) option"
  and JSONObject :: "nat \<Rightarrow> pystr \<Rightarrow> (json \<times> pystr) option"
  and object_items :: "nat \<Rightarrow> pystr \<Rightarrow> ((pystr \<times> json) list \<times> pystr) option"
where
  "scan_once 0 s = None"
| "scan_once (Suc n) s =
     (case s of
        [] \<Rightarrow> None
      | c # cs \<Rightarrow>
          if c = 34 then
            (case scanstring cs of None \<Rightarrow> None | Some (t, r) \<Rightarrow> Some (JStr t, r))
          else if c = 123 then JSONObject n cs
          else if c = 91 then JSONArray n cs
          else if c = 110 \<and> take 4 s = py ''null'' then Some (JNull, drop 4 s)
          else if c = 116 \<and> take 4 s = py ''true'' then Some (JBool True, drop 4 s)
          else if c = 102 \<and> take 5 s = py ''false'' then Some (JBool False, drop 5 s)
          else
            (case match_number s of
               Some r \<Rightarrow> Some r
             | None \<Rightarrow>
                 if c = 78 \<and> take 3 s = py ''NaN'' then Some (JFloat (py ''NaN''), drop 3 s)
                 else if c = 73 \<and> take 8 s = py ''Infinity'' then
                   Some (JFloat (py ''Infinity''), drop 8 s)
                 else if c = 45 \<and> take 9 s = py ''-Infinity'' then
                   Some (JFloat (py ''-Infinity''), drop 9 s)
                 else None))"
| "JSONArray 0 s = None"
| "JSONArray (Suc n) s =
     (case skip_ws s of
        [] \<Rightarrow> None
      | c # r \<Rightarrow>
          if c = 93 then Some (JArr [], r)
          else (case array_items n (c # r) of
                  None \<Rightarrow> None
                | Some (vs, r') \<Rightarrow> Some (JArr vs, r')))"
| "array_items 0 s = None"
| "array_items (Suc n) s =
     (case scan_once n s of
        None \<Rightarrow> None
      | Some (v, r) \<Rightarrow>
          (case skip_ws r of
             [] \<Rightarrow> None
           | c # r1 \<Rightarrow>
               if c = 93 then Some ([v], r1)
               else if c = 44 then
                 (case array_items n (skip_ws r1) of
                    None \<Rightarrow> None
                  | Some (vs, r2) \<Rightarrow> Some (v # vs, r2))
               else None))"
| "JSONObject 0 s = None"
| "JSONObject (Suc n) s =
     (case skip_ws s of
        [] \<Rightarrow> None
      | c # r \<Rightarrow>
          if c = 125 then Some (JObj [], r)
          else if c = 34 then
            (case object_items n r of
               None \<Rightarrow> None
             | Some (pairs, r') \<Rightarrow> Some (JObj (dict_of pairs), r'))
          else None)"
| "object_items 0 s = None"
| "object_items (Suc n) s =
     (case scanstring s of
        None \<Rightarrow> None
      | Some (key, r) \<Rightarrow>
          (case skip_ws r of
             [] \<Rightarrow> None
           | c # r1 \<Rightarrow>
               if c \<noteq> 58 then None
               else
                 (case scan_once n (skip_ws r1) of
                    None \<Rightarrow> None
                  | Some (v, r2) \<Rightarrow>
                      (case skip_ws r2 of
                         [] \<Rightarrow> None
                       | d # r3 \<Rightarrow>
                           if d = 125 then Some ([(key, v)], r3)
                           else if d = 44 then
                             (case skip_ws r3 of
                                [] \<Rightarrow> None
                              | q # r4 \<Rightarrow>
                                  if q = 34 then
                                    (case object_items n r4 of
                                       None \<Rightarrow> None
                                     | Some (ps, r5) \<Rightarrow> Some ((key, v) # ps, r5))
                                  else None)
                           else None))))"

text \<open>
  \<open>json.loads(s)\<close> for a \<open>str\<close>: one value with blanks around it and nothing after;
  \<open>None\<close> stands for \<open>JSONDecodeError\<close>.
\<close>

definition loads :: "pystr \<Rightarrow> json option" where
  "loads s =
     (if take 1 s = [0xFEFF] then None
      else case scan_once (2 * length s + 2) (skip_ws s) of
             None \<Rightarrow> None
           | Some (v, r) \<Rightarrow> if skip_ws r = [] then Some v else None)"

section \<open>Python values in conditions\<close>

text \<open>
  Truth value of a decoded message (\<open>if username_data\<close>, \<open>if not message_data\<close>).
  A float is false when it is zero; on the text of a float that is read as: every digit
  of the mantissa is \<open>0\<close> (a literal so small that \<open>float()\<close> rounds it to zero is not
  recognised as zero here).
\<close>

definition float_zero :: "pystr \<Rightarrow> bool" where
  "float_zero t \<longleftrightarrow>
     t \<noteq> [] \<and> (\<forall>c \<in> set (takeWhile (\<lambda>c. c \<noteq> 101 \<and> c \<noteq> 69) t). c = 45 \<or> c = 46 \<or> c = 48)"

fun truthy :: "json \<Rightarrow> bool" where
  "truthy JNull = False"
| "truthy (JBool b) = b"
| "truthy (JInt i) = (i \<noteq> 0)"
| "truthy (JFloat t) = (\<not> float_zero t)"
| "truthy (JStr s) = (s \<noteq> [])"
| "truthy (JArr xs) = (xs \<noteq> [])"
| "truthy (JObj kvs) = (kvs \<noteq> [])"

text \<open>\<open>d.get(k, default)\<close>; \<open>d.get(k)\<close> is \<open>dict_get d k JNull\<close>.\<close>

definition dict_get :: "(pystr \<times> json) list \<Rightarrow> pystr \<Rightarrow> json \<Rightarrow> json" where
  "dict_get d k dflt = (case map_of d k of None \<Rightarrow> dflt | Some v \<Rightarrow> v)"

section \<open>The server state\<close>

text \<open>
  A socket is its identity. The state of \<open>ChatServer\<close> is the dictionary \<open>clients\<close>
  (its items in insertion order) and whether \<open>clients_lock\<close> is held; the network is the
  bytes written so far, oldest first (\<open>wire\<close>), the sockets closed by the server and the
  sockets whose peer is gone (\<open>broken\<close>), on which \<open>send\<close> raises. \<open>socket.send\<close> is
  taken to write the whole buffer when it does not raise. Log lines are not modelled.
\<close>

type_synonym sock = nat

datatype exn = AttributeError | OSError

text \<open>
  The outcome of a call: it returns, it raises, or it waits for ever for
  \<open>clients_lock\<close> (\<open>threading.Lock\<close> is not reentrant).
\<close>

datatype 'a result = Ok 'a | Raised exn | Blocked

record server =
  clients :: "(sock \<times> pystr) list"
  locked :: bool
  wire :: "(sock \<times> bytes) list"
  closed :: "sock list"
  broken :: "sock list"

definition sendable :: "server \<Rightarrow> sock \<Rightarrow> bool" where
  "sendable st c \<longleftrightarrow> c \<notin> set (closed st) \<and> c \<notin> set (broken st)"

definition sock_send :: "server \<Rightarrow> sock \<Rightarrow> bytes \<Rightarrow> server result" where
  "sock_send st c b =
     (if sendable st c then Ok (st\<lparr>wire := wire st @ [(c, b)]\<rparr>) else Raised OSError)"

definition sock_close :: "server \<Rightarrow> sock \<Rightarrow> server" where
  "sock_close st c = st\<lparr>closed := closed st @ [c]\<rparr>"

section \<open>Messages the server builds\<close>

definition error_message :: "pystr \<Rightarrow> json" where
  "error_message text = JObj [(py ''type'', JStr (py ''error'')), (py ''message'', JStr text)]"

definition user_joined :: "pystr \<Rightarrow> pystr \<Rightarrow> json" where
  "user_joined username t =
     JObj [(py ''type'', JStr (py ''user_joined'')), (py ''username'', JStr username),
           (py ''message'', JStr (username @ py '' joined the chat'')),
           (py ''timestamp'', JFloat t)]"

definition welcome_message :: "pystr \<Rightarrow> pystr list \<Rightarrow> pystr \<Rightarrow> json" where
  "welcome_message username users t =
     JObj [(py ''type'', JStr (py ''welcome'')),
           (py ''message'', JStr (py ''Welcome to the chat, '' @ username @ py ''!'')),
           (py ''users'', JArr (map JStr users)), (py ''timestamp'', JFloat t)]"

definition chat_message :: "pystr \<Rightarrow> pystr \<Rightarrow> pystr \<Rightarrow> json" where
  "chat_message username content t =
     JObj [(py ''type'', JStr (py ''chat'')), (py ''username'', JStr username),
           (py ''message'', JStr content), (py ''timestamp'', JFloat t)]"

definition user_left :: "pystr \<Rightarrow> pystr \<Rightarrow> json" where
  "user_left username t =
     JObj [(py ''type'', JStr (py ''user_left'')), (py ''username'', JStr username),
           (py ''message'', JStr (username @ py '' left the chat'')),
           (py ''timestamp'', JFloat t)]"

definition pong :: json where
  "pong = JObj [(py ''type'', JStr (py ''pong''))]"

section \<open>\<open>send_message\<close> and \<open>receive_message\<close>\<close>

text \<open>\<open>(json.dumps(data) + '\n').encode('utf-8')\<close>\<close>

definition encode :: "json \<Rightarrow> bytes option" where
  "encode data = utf8_encode (dumps data @ [10])"

text \<open>
  \<open>send_message\<close>: whatever is raised inside the \<open>try\<close> is logged and dropped
  (line 174), so the call returns and the state is the one before the failed step.
\<close>

definition send_message :: "server \<Rightarrow> sock \<Rightarrow> json \<Rightarrow> server result" where
  "send_message st client_socket data =
     (case encode data of
        None \<Rightarrow> Ok st
      | Some message \<Rightarrow>
          (case sock_send st client_socket message of
             Ok st' \<Rightarrow> Ok st'
           | Raised e \<Rightarrow> Ok st
           | Blocked \<Rightarrow> Blocked))"

text \<open>
  What \<open>recv(1024)\<close> gives, call after call: some bytes (none at the end of the stream)
  or an exception (\<open>socket.timeout\<close>, a reset). When nothing is pending the call ends
  with \<open>socket.timeout\<close>, since the server sets a timeout before it reads.
\<close>

datatype recv = Data bytes | Fails

text \<open>
  The loop \<open>while '\n' not in buffer\<close> of \<open>receive_message\<close>: the buffer once it holds a
  newline, or \<open>None\<close> when the function returns \<open>None\<close> from inside the loop (an empty
  chunk, or an exception, caught at line 198).
\<close>

fun read_frame :: "pystr \<Rightarrow> recv list \<Rightarrow> pystr option \<times> recv list" where
  "read_frame buffer evs =
     (if 10 \<in> set buffer then (Some buffer, evs)
      else case evs of
             [] \<Rightarrow> (None, [])
           | Fails # rest \<Rightarrow> (None, rest)
           | Data b # rest \<Rightarrow>
               (case utf8_decode b of
                  None \<Rightarrow> (None, rest)
                | Some chunk \<Rightarrow>
                    if chunk = [] then (None, rest) else read_frame (buffer @ chunk) rest))"

declare read_frame.simps [simp del]

text \<open>\<open>buffer.split('\n', 1)\<close> for a buffer that holds a newline.\<close>

definition split_first :: "pystr \<Rightarrow> pystr \<times> pystr" where
  "split_first buffer =
     (takeWhile (\<lambda>c. c \<noteq> 10) buffer, drop 1 (dropWhile (\<lambda>c. c \<noteq> 10) buffer))"

text \<open>
  \<open>receive_message\<close>: the decoded message (\<open>JNull\<close> is Python's \<open>None\<close>, also returned
  for invalid JSON) and what is still to be received from the socket. The buffer is a
  local variable, and \<open>remaining\<close> is not used after the split (lines 189 to 191).
\<close>

definition receive_message :: "recv list \<Rightarrow> json \<times> recv list" where
  "receive_message evs =
     (case read_frame [] evs of
        (None, rest) \<Rightarrow> (JNull, rest)
      | (Some buffer, rest) \<Rightarrow>
          (let (message, remaining) = split_first buffer
           in case loads message of None \<Rightarrow> (JNull, rest) | Some v \<Rightarrow> (v, rest)))"

section \<open>Broadcast and disconnect\<close>

text \<open>
  \<open>disconnect_client(client_socket, username, notify=False)\<close>, as \<open>broadcast_message\<close>
  calls it: the entry is deleted under the lock and the socket is closed; the condition
  at line 228 is false.
\<close>

definition remove_client :: "server \<Rightarrow> sock \<Rightarrow> server result" where
  "remove_client st client_socket =
     (if locked st then Blocked
      else Ok (if client_socket \<in> set (map fst (clients st))
               then st\<lparr>clients := AList.delete client_socket (clients st)\<rparr> else st))"

definition disconnect_silent :: "server \<Rightarrow> sock \<Rightarrow> server result" where
  "disconnect_silent st client_socket =
     (case remove_client st client_socket of
        Ok st' \<Rightarrow> Ok (sock_close st' client_socket)
      | Raised e \<Rightarrow> Ok st
      | Blocked \<Rightarrow> Blocked)"

text \<open>The first loop of \<open>broadcast_message\<close>, with \<open>disconnected_clients\<close>.\<close>

fun send_all ::
  "server \<Rightarrow> sock list \<Rightarrow> sock option \<Rightarrow> json \<Rightarrow> sock list \<Rightarrow> (server \<times> sock list) result"
where
  "send_all st [] exclude data disconnected_clients = Ok (st, disconnected_clients)"
| "send_all st (c # cs) exclude data disconnected_clients =
     (if Some c \<noteq> exclude then
        (case send_message st c data of
           Ok st' \<Rightarrow> send_all st' cs exclude data disconnected_clients
         | Raised e \<Rightarrow> send_all st cs exclude data (disconnected_clients @ [c])
         | Blocked \<Rightarrow> Blocked)
      else send_all st cs exclude data disconnected_clients)"

text \<open>The second loop, \<open>for client_socket in disconnected_clients\<close>.\<close>

fun cleanup :: "server \<Rightarrow> sock list \<Rightarrow> server result" where
  "cleanup st [] = Ok st"
| "cleanup st (c # cs) =
     (case disconnect_silent st c of
        Ok st' \<Rightarrow> cleanup st' cs
      | Raised e \<Rightarrow> Raised e
      | Blocked \<Rightarrow> Blocked)"

definition broadcast_message :: "server \<Rightarrow> json \<Rightarrow> sock option \<Rightarrow> server result" where
  "broadcast_message st data exclude =
     (if locked st then Blocked
      else case send_all (st\<lparr>locked := True\<rparr>) (map fst (clients st)) exclude data [] of
             Ok (st1, disconnected_clients) \<Rightarrow>
               (case cleanup st1 disconnected_clients of
                  Ok st2 \<Rightarrow> Ok (st2\<lparr>locked := False\<rparr>)
                | Raised e \<Rightarrow> Raised e
                | Blocked \<Rightarrow> Blocked)
           | Raised e \<Rightarrow> Raised e
           | Blocked \<Rightarrow> Blocked)"

text \<open>
  \<open>disconnect_client\<close> with the clock reading \<open>now\<close> for the notice. The function has no
  \<open>return\<close> statement, so the value of a call is \<open>None\<close>, the second component.
\<close>

definition disconnect_client ::
  "pystr \<Rightarrow> server \<Rightarrow> sock \<Rightarrow> pystr option \<Rightarrow> bool \<Rightarrow> (server \<times> pystr option) result"
where
  "disconnect_client now st client_socket username notify =
     (case remove_client st client_socket of
        Blocked \<Rightarrow> Blocked
      | Raised e \<Rightarrow> Ok (st, None)
      | Ok st1 \<Rightarrow>
          (let st2 = sock_close st1 client_socket
           in case username of
                None \<Rightarrow> Ok (st2, None)
              | Some name \<Rightarrow>
                  if name \<noteq> [] \<and> notify then
                    (case broadcast_message st2 (user_left name now) None of
                       Ok st3 \<Rightarrow> Ok (st3, None)
                     | Raised e \<Rightarrow> Ok (st2, None)
                     | Blocked \<Rightarrow> Blocked)
                  else Ok (st2, None)))"

section \<open>The handshake and the dispatch of one message\<close>

text \<open>The two critical sections of a join: line 128 and line 76.\<close>

definition name_taken :: "server \<Rightarrow> pystr \<Rightarrow> bool" where
  "name_taken st username \<longleftrightarrow> username \<in> set (map snd (clients st))"

definition register :: "server \<Rightarrow> sock \<Rightarrow> pystr \<Rightarrow> server" where
  "register st client_socket username =
     st\<lparr>clients := AList.update client_socket username (clients st)\<rparr>"

text \<open>
  \<open>get_username\<close>: the state, what is still to be received, and the name (\<open>None\<close> when
  the join is refused). An \<open>AttributeError\<close> (the message is no dictionary, the name no
  string) is caught at line 144: \<open>None\<close> is returned and nothing is sent. The error
  \<open>Username already taken\<close> is sent while the lock is held.
\<close>

definition send_error :: "server \<Rightarrow> sock \<Rightarrow> recv list \<Rightarrow> pystr \<Rightarrow> (server \<times> recv list \<times> pystr option) result" where
  "send_error st client_socket evs text =
     (case send_message st client_socket (error_message text) of
        Ok st' \<Rightarrow> Ok (st', evs, None)
      | Raised e \<Rightarrow> Ok (st, evs, None)
      | Blocked \<Rightarrow> Blocked)"

definition get_username ::
  "server \<Rightarrow> sock \<Rightarrow> recv list \<Rightarrow> (server \<times> recv list \<times> pystr option) result"
where
  "get_username st client_socket evs =
     (let (username_data, evs') = receive_message evs
      in if truthy username_data then
           (case username_data of
              JObj d \<Rightarrow>
                if dict_get d (py ''type'') JNull = JStr (py ''join'') then
                  (case dict_get d (py ''username'') (JStr []) of
                     JStr raw \<Rightarrow>
                       (let username = strip raw
                        in if username \<noteq> [] \<and> length username \<le> 20 then
                             (if locked st then Blocked
                              else if name_taken st username then
                                (case send_error (st\<lparr>locked := True\<rparr>) client_socket evs'
                                        (py ''Username already taken'') of
                                   Ok (st', r, u) \<Rightarrow> Ok (st'\<lparr>locked := False\<rparr>, r, u)
                                 | Raised e \<Rightarrow> Raised e
                                 | Blocked \<Rightarrow> Blocked)
                              else Ok (st, evs', Some username))
                           else send_error st client_socket evs' (py ''Invalid username''))
                   | _ \<Rightarrow> Ok (st, evs', None))
                else send_error st client_socket evs' (py ''Invalid username'')
            | _ \<Rightarrow> Ok (st, evs', None))
         else send_error st client_socket evs' (py ''Invalid username''))"

text \<open>
  \<open>handle_client\<close> from its start to the message loop (lines 66 to 92), with the
  \<open>finally\<close> clause where the function returns at line 72. \<open>t1\<close> and \<open>t2\<close> are the two
  readings of \<open>time.time()\<close>. The list of users is read without the lock.
\<close>

definition handle_client_join ::
  "pystr \<Rightarrow> pystr \<Rightarrow> server \<Rightarrow> sock \<Rightarrow> recv list \<Rightarrow> (server \<times> recv list \<times> pystr option) result"
where
  "handle_client_join t1 t2 st client_socket evs =
     (case get_username st client_socket evs of
        Blocked \<Rightarrow> Blocked
      | Raised e \<Rightarrow> Raised e
      | Ok (st1, evs1, None) \<Rightarrow>
          (case disconnect_client t1 st1 client_socket None True of
             Ok (st2, r) \<Rightarrow> Ok (st2, evs1, None)
           | Raised e \<Rightarrow> Raised e
           | Blocked \<Rightarrow> Blocked)
      | Ok (st1, evs1, Some username) \<Rightarrow>
          if locked st1 then Blocked
          else
            (case broadcast_message (register st1 client_socket username)
                    (user_joined username t1) (Some client_socket) of
               Blocked \<Rightarrow> Blocked
             | Raised e \<Rightarrow> Raised e
             | Ok st2 \<Rightarrow>
                 (case send_message st2 client_socket
                         (welcome_message username (map snd (clients st2)) t2) of
                    Ok st3 \<Rightarrow> Ok (st3, evs1, Some username)
                  | Raised e \<Rightarrow> Raised e
                  | Blocked \<Rightarrow> Blocked)))"

text \<open>
  \<open>process_message\<close>. \<open>message_data.get\<close> raises \<open>AttributeError\<close> when the message is
  no dictionary, and so does \<open>.strip()\<close> when the field \<open>message\<close> is no string.
\<close>

definition process_message ::
  "pystr \<Rightarrow> server \<Rightarrow> sock \<Rightarrow> pystr \<Rightarrow> json \<Rightarrow> server result"
where
  "process_message now st client_socket username message_data =
     (case message_data of
        JObj d \<Rightarrow>
          (let message_type = dict_get d (py ''type'') JNull
           in if message_type = JStr (py ''chat'') then
                (case dict_get d (py ''message'') (JStr []) of
                   JStr raw \<Rightarrow>
                     (let content = strip raw
                      in if content \<noteq> [] then
                           broadcast_message st (chat_message username content now) None
                         else Ok st)
                 | _ \<Rightarrow> Raised AttributeError)
              else if message_type = JStr (py ''ping'') then send_message st client_socket pong
              else Ok st)
      | _ \<Rightarrow> Raised AttributeError)"

section \<open>Two handshakes at once\<close>

text \<open>
  Threads interleave between critical sections. A thread that has read a valid name is
  at line 127 (\<open>Checking\<close>); when the name is free it leaves \<open>get_username\<close> and is at
  line 75 (\<open>Inserting\<close>); after line 76 it is \<open>Active\<close>. Each step below is one block
  \<open>with self.clients_lock\<close>, run by the thread of the given socket.
\<close>

datatype pc = Checking pystr | Inserting pystr | Active pystr | Refused

record system =
  srv :: server
  threads :: "(sock \<times> pc) list"

definition step :: "sock \<Rightarrow> system \<Rightarrow> system" where
  "step c sys =
     (case map_of (threads sys) c of
        Some (Checking username) \<Rightarrow>
          if name_taken (srv sys) username then
            (case send_message (srv sys) c (error_message (py ''Username already taken'')) of
               Ok st' \<Rightarrow> sys\<lparr>srv := st', threads := AList.update c Refused (threads sys)\<rparr>
             | _ \<Rightarrow> sys\<lparr>threads := AList.update c Refused (threads sys)\<rparr>)
          else sys\<lparr>threads := AList.update c (Inserting username) (threads sys)\<rparr>
      | Some (Inserting username) \<Rightarrow>
          sys\<lparr>srv := register (srv sys) c username,
              threads := AList.update c (Active username) (threads sys)\<rparr>
      | _ \<Rightarrow> sys)"

definition run :: "sock list \<Rightarrow> system \<Rightarrow> system" where
  "run schedule sys = fold step schedule sys"

section \<open>Well-formed values\<close>

text \<open>
  The text of a float is made of the characters of a number literal or of \<open>NaN\<close>,
  \<open>Infinity\<close> and \<open>-Infinity\<close>; \<open>floats_ok\<close> says so of every float inside a value.
  \<open>printable\<close>: every character is in \<open>' '..'~'\<close>.
\<close>

definition float_text :: "pystr \<Rightarrow> bool" where
  "float_text t \<longleftrightarrow>
     t \<noteq> [] \<and>
     (\<forall>c\<in>set t. is_digit c \<or> c = 43 \<or> c = 45 \<or> c = 46 \<or> c = 69 \<or> c = 101 \<or>
                 c = 78 \<or> c = 97 \<or> c = 73 \<or> c = 110 \<or> c = 102 \<or> c = 105 \<or> c = 116 \<or> c = 121)"

fun floats_ok :: "json \<Rightarrow> bool" where
  "floats_ok (JFloat t) = float_text t"
| "floats_ok (JArr xs) = (\<forall>x\<in>set xs. floats_ok x)"
| "floats_ok (JObj kvs) = (\<forall>kv\<in>set kvs. floats_ok (snd kv))"
| "floats_ok _ = True"

definition printable :: "pystr \<Rightarrow> bool" where
  "printable s \<longleftrightarrow> (\<forall>c\<in>set s. 32 \<le> c \<and> c \<le> 126)"

section \<open>Facts about sending and broadcasting\<close>

lemma send_message_eq:
  "send_message st c data =
     Ok (case encode data of
           None \<Rightarrow> st
         | Some b \<Rightarrow> if sendable st c then st\<lparr>wire := wire st @ [(c, b)]\<rparr> else st)"
  by (simp add: send_message_def sock_send_def split: option.splits)

lemma send_message_never_raises: "send_message st c data \<noteq> Raised e"
  by (simp add: send_message_eq)

lemma sendable_wire [simp]: "sendable (st\<lparr>wire := w\<rparr>) c = sendable st c"
  by (simp add: sendable_def)

lemma sendable_locked [simp]: "sendable (st\<lparr>locked := l\<rparr>) c = sendable st c"
  by (simp add: sendable_def)

lemma sendable_clients [simp]: "sendable (st\<lparr>clients := l\<rparr>) c = sendable st c"
  by (simp add: sendable_def)

lemma send_all_Some:
  "encode data = Some b \<Longrightarrow>
   send_all st cs ex data dc =
     Ok (st\<lparr>wire := wire st @ map (\<lambda>c. (c, b)) (filter (\<lambda>c. Some c \<noteq> ex \<and> sendable st c) cs)\<rparr>, dc)"
proof (induction cs arbitrary: st)
  case Nil
  show ?case by simp
next
  case (Cons c cs)
  show ?case
  proof (cases "Some c \<noteq> ex \<and> sendable st c")
    case True
    then show ?thesis
      using Cons.prems by (simp add: send_message_eq Cons.IH [OF Cons.prems])
  next
    case False
    then show ?thesis
      using Cons.prems by (auto simp add: send_message_eq Cons.IH [OF Cons.prems])
  qed
qed

lemma send_all_None: "encode data = None \<Longrightarrow> send_all st cs ex data dc = Ok (st, dc)"
  by (induction cs arbitrary: st) (simp_all add: send_message_eq)

lemma broadcast_Some:
  "\<not> locked st \<Longrightarrow> encode data = Some b \<Longrightarrow>
   broadcast_message st data ex =
     Ok (st\<lparr>wire := wire st @
              map (\<lambda>c. (c, b)) (filter (\<lambda>c. Some c \<noteq> ex \<and> sendable st c) (map fst (clients st)))\<rparr>)"
  by (cases st) (simp add: broadcast_message_def send_all_Some sendable_def)

lemma broadcast_None:
  "\<not> locked st \<Longrightarrow> encode data = None \<Longrightarrow> broadcast_message st data ex = Ok st"
  by (cases st) (simp add: broadcast_message_def send_all_None)

lemma broadcast_total:
  assumes "\<not> locked st"
  shows "\<exists>st'. broadcast_message st data ex = Ok st' \<and> clients st' = clients st \<and>
           \<not> locked st' \<and> closed st' = closed st \<and> broken st' = broken st"
proof (cases "encode data")
  case None
  with assms show ?thesis by (simp add: broadcast_None)
next
  case (Some b)
  with assms show ?thesis by (simp add: broadcast_Some)
qed

lemma filter_neq_id: "x \<notin> set xs \<Longrightarrow> filter (\<lambda>c. c \<noteq> x) xs = xs"
  by (induction xs) auto

lemma length_filter_neq:
  "distinct xs \<Longrightarrow> x \<in> set xs \<Longrightarrow> Suc (length (filter (\<lambda>c. c \<noteq> x) xs)) = length xs"
  by (induction xs) (auto simp: filter_neq_id)

lemma disconnect_client_unlocked:
  assumes "\<not> locked st"
  shows "\<exists>st'. disconnect_client now st c username notify = Ok (st', None) \<and>
           clients st' = AList.delete c (clients st) \<and> \<not> locked st'"
proof -
  let ?st1 = "if c \<in> set (map fst (clients st)) then st\<lparr>clients := AList.delete c (clients st)\<rparr> else st"
  let ?st2 = "sock_close ?st1 c"
  have r: "remove_client st c = Ok ?st1"
    using assms by (simp add: remove_client_def)
  have c2: "clients ?st2 = AList.delete c (clients st)" and l2: "\<not> locked ?st2"
    using assms by (auto simp: sock_close_def)
  show ?thesis
  proof (cases "\<exists>name. username = Some name \<and> name \<noteq> [] \<and> notify")
    case True
    then obtain name where n: "username = Some name" "name \<noteq> []" "notify" by blast
    obtain st3 where b: "broadcast_message ?st2 (user_left name now) None = Ok st3"
      and c3: "clients st3 = clients ?st2" and l3: "\<not> locked st3"
      using broadcast_total [OF l2] by blast
    have "disconnect_client now st c username notify = Ok (st3, None)"
      unfolding disconnect_client_def r using n b by (simp add: Let_def)
    with c3 c2 l3 show ?thesis by simp
  next
    case False
    then have "disconnect_client now st c username notify = Ok (?st2, None)"
      unfolding disconnect_client_def r by (auto simp: Let_def split: option.splits)
    with c2 l2 show ?thesis by simp
  qed
qed

text \<open>Evaluation of \<open>encode\<close> and \<open>loads\<close> on given messages.\<close>

lemmas scan_once_numeral = scan_once.simps(2) [of "pred_numeral k", folded numeral_eq_Suc] for k
lemmas JSONArray_numeral = JSONArray.simps(2) [of "pred_numeral k", folded numeral_eq_Suc] for k
lemmas array_items_numeral = array_items.simps(2) [of "pred_numeral k", folded numeral_eq_Suc] for k
lemmas JSONObject_numeral = JSONObject.simps(2) [of "pred_numeral k", folded numeral_eq_Suc] for k
lemmas object_items_numeral = object_items.simps(2) [of "pred_numeral k", folded numeral_eq_Suc] for k

lemmas eval_dumps = encode_def py_def encode_basestring_ascii_def escape_char_def
  utf8_char_def pong_def error_message_def user_joined_def welcome_message_def
  chat_message_def user_left_def char_of_eq_iff

lemmas eval_loads = loads_def py_def cons_char_def dict_of_def
  scan_once_numeral JSONArray_numeral array_items_numeral JSONObject_numeral
  object_items_numeral
  match_number_def match_integer_def match_frac_def match_exp_def is_digit_def
  backslash_def decode_uXXXX_def hex_val_def parse_int_def nat_of_digits_def

lemmas eval_receive = receive_message_def read_frame.simps split_first_def cont_def

section \<open>Two sessions joining with one name\<close>

text \<open>
  Claim C1: when two sessions join concurrently with the same free name, exactly one join
  is accepted and the other is refused, so that no reachable state maps two sessions to
  one name. In \<open>server.py\<close> the test at line 128 and the insertion at line 76 are two
  separate blocks \<open>with self.clients_lock\<close>. In the schedule where thread 1 and thread 2
  both run the test before either inserts, both joins are accepted and the registry maps
  the sockets 1 and 2 to the name \<open>alice\<close>.
\<close>

theorem C1_two_joins_same_name:
  "run [1, 2, 1, 2]
     \<lparr>srv = \<lparr>clients = [], locked = False, wire = [], closed = [], broken = []\<rparr>,
      threads = [(1, Checking (py ''alice'')), (2, Checking (py ''alice''))]\<rparr>
   = \<lparr>srv = \<lparr>clients = [(1, py ''alice''), (2, py ''alice'')], locked = False, wire = [],
              closed = [], broken = []\<rparr>,
      threads = [(1, Active (py ''alice'')), (2, Active (py ''alice''))]\<rparr>"
  by (simp add: run_def step_def name_taken_def register_def)

section \<open>A broadcast with one failing recipient\<close>

text \<open>
  Claim C2, as the code has it: when a message is broadcast to the sessions of the
  registry and the send to exactly one of them fails, the message is written to each of
  the other sessions, once and in the order of the registry, and the broadcast writes
  nothing else: no \<open>user_left\<close> notice follows (the clean-up of \<open>broadcast_message\<close> calls
  \<open>disconnect_client\<close> with \<open>notify=False\<close>).
\<close>

theorem C2_broadcast_one_failure:
  assumes "\<not> locked st" and "encode data = Some b"
    and "distinct (map fst (clients st))"
    and "failed \<in> set (map fst (clients st))" and "\<not> sendable st failed"
    and "\<forall>c \<in> set (map fst (clients st)). c \<noteq> failed \<longrightarrow> sendable st c"
  shows "\<exists>st'. broadcast_message st data None = Ok st' \<and>
           wire st' = wire st @ map (\<lambda>c. (c, b)) (filter (\<lambda>c. c \<noteq> failed) (map fst (clients st))) \<and>
           length (wire st') = length (wire st) + (length (clients st) - 1)"
proof -
  have "filter (\<lambda>c. Some c \<noteq> None \<and> sendable st c) (map fst (clients st))
        = filter (\<lambda>c. c \<noteq> failed) (map fst (clients st))"
    using assms(5,6) by (intro filter_cong) auto
  moreover have "length (filter (\<lambda>c. c \<noteq> failed) (map fst (clients st))) = length (clients st) - 1"
    using length_filter_neq [OF assms(3,4)] by simp
  ultimately show ?thesis
    using assms(1,2) by (simp add: broadcast_Some)
qed

theorem C2_broadcast_one_failure_witness:
  \<open>\<not> locked \<lparr>clients = [(1, py ''ann''), (2, py ''bob''), (3, py ''cy'')], locked = False,
              wire = [], closed = [], broken = [2]\<rparr> \<and>
   encode pong = Some ''{"type": "pong"}\<newline>'' \<and>
   (\<exists>st'. broadcast_message
            \<lparr>clients = [(1, py ''ann''), (2, py ''bob''), (3, py ''cy'')], locked = False,
             wire = [], closed = [], broken = [2]\<rparr> pong None = Ok st' \<and>
          wire st' = [(1, ''{"type": "pong"}\<newline>''), (3, ''{"type": "pong"}\<newline>'')])\<close>
proof -
  let ?st = "\<lparr>clients = [(1, py ''ann''), (2, py ''bob''), (3, py ''cy'')], locked = False,
              wire = [], closed = [], broken = [2::nat]\<rparr>"
  have e: \<open>encode pong = Some ''{"type": "pong"}\<newline>''\<close>
    by (simp add: eval_dumps)
  have \<open>\<exists>st'. broadcast_message ?st pong None = Ok st' \<and>
          wire st' = wire ?st @ map (\<lambda>c. (c, ''{"type": "pong"}\<newline>''))
                                 (filter (\<lambda>c. c \<noteq> 2) (map fst (clients ?st))) \<and>
          length (wire st') = length (wire ?st) + (length (clients ?st) - 1)\<close>
    by (rule C2_broadcast_one_failure [where failed = 2]) (simp_all add: e sendable_def)
  then show ?thesis using e by auto
qed

text \<open>
  The claim as the specification states it fails: after a broadcast to three sessions
  where the send to the second fails, the second session is still in the registry, and
  the two frames of the message are all that was written.
\<close>

theorem C2_failed_recipient_stays:
  \<open>broadcast_message
     \<lparr>clients = [(1, py ''ann''), (2, py ''bob''), (3, py ''cy'')], locked = False,
      wire = [], closed = [], broken = [2]\<rparr> pong None
   = Ok \<lparr>clients = [(1, py ''ann''), (2, py ''bob''), (3, py ''cy'')], locked = False,
         wire = [(1, ''{"type": "pong"}\<newline>''), (3, ''{"type": "pong"}\<newline>'')],
         closed = [], broken = [2]\<rparr>\<close>
proof -
  have e: \<open>encode pong = Some ''{"type": "pong"}\<newline>''\<close>
    by (simp add: eval_dumps)
  show ?thesis
    using broadcast_Some [OF _ e, of "\<lparr>clients = [(1, py ''ann''), (2, py ''bob''), (3, py ''cy'')],
        locked = False, wire = [], closed = [], broken = [2]\<rparr>" None]
    by (simp add: sendable_def)
qed

section \<open>Removal from the registry\<close>

text \<open>
  Claim C9, as the code has it: \<open>disconnect_client\<close> deletes the entry of the session when
  there is one and returns nothing (the caller passes the name in); for a session with
  no entry the registry is unchanged, so a second removal changes nothing; after a join
  the list of names contains the joined name, and after the removal it contains a name
  no longer when no other session holds it.
\<close>

theorem C9_remove_and_join:
  assumes "\<not> locked st"
  shows "\<exists>st' st''.
           disconnect_client now st c username notify = Ok (st', None) \<and>
           clients st' = AList.delete c (clients st) \<and>
           map_of (clients st') c = None \<and>
           (c \<notin> set (map fst (clients st)) \<longrightarrow> clients st' = clients st) \<and>
           disconnect_client now st' c username notify = Ok (st'', None) \<and>
           clients st'' = clients st' \<and>
           (\<forall>u. (\<forall>c'. (c', u) \<in> set (clients st) \<longrightarrow> c' = c) \<longrightarrow> u \<notin> set (map snd (clients st'))) \<and>
           map_of (clients (register st c name)) c = Some name \<and>
           name \<in> set (map snd (clients (register st c name)))"
proof -
  obtain st' where 1: "disconnect_client now st c username notify = Ok (st', None)"
    and 2: "clients st' = AList.delete c (clients st)" and 3: "\<not> locked st'"
    using disconnect_client_unlocked [OF assms] by blast
  obtain st'' where 4: "disconnect_client now st' c username notify = Ok (st'', None)"
    and 5: "clients st'' = AList.delete c (clients st')"
    using disconnect_client_unlocked [OF 3] by blast
  have 6: "clients st'' = clients st'"
    using 5 2 by (simp add: AList.delete_idem)
  have 7: "map_of (clients st') c = None"
    using 2 by (simp add: AList.delete_conv')
  have 8: "c \<notin> set (map fst (clients st)) \<longrightarrow> clients st' = clients st"
    using 2 by simp
  have 9: "\<forall>u. (\<forall>c'. (c', u) \<in> set (clients st) \<longrightarrow> c' = c) \<longrightarrow> u \<notin> set (map snd (clients st'))"
    using 2 by (auto simp: AList.delete_eq)
  have 10: "map_of (clients (register st c name)) c = Some name"
    by (simp add: register_def AList.update_conv')
  then have 11: "name \<in> set (map snd (clients (register st c name)))"
    by (metis map_of_SomeD set_zip_rightD zip_map_fst_snd)
  from 1 2 4 6 7 8 9 10 11 show ?thesis by blast
qed

theorem C9_remove_and_join_witness:
  "\<not> locked \<lparr>clients = [(1, py ''alice'')], locked = False, wire = [], closed = [], broken = []\<rparr> \<and>
   (\<exists>st'. disconnect_client (py ''1.5'')
             \<lparr>clients = [(1, py ''alice'')], locked = False, wire = [], closed = [], broken = []\<rparr>
             1 (Some (py ''alice'')) True = Ok (st', None) \<and>
          clients st' = [])"
  using C9_remove_and_join [of "\<lparr>clients = [(1, py ''alice'')], locked = False, wire = [],
      closed = [], broken = []\<rparr>" "py ''1.5''" 1 "Some (py ''alice'')" True "py ''alice''"]
  by auto

text \<open>
  The claim as the specification states it fails: the removal of a registered session
  returns \<open>None\<close>, not the name that was removed.
\<close>

theorem C9_remove_returns_none:
  "disconnect_client (py ''1.5'')
     \<lparr>clients = [(1, py ''alice'')], locked = False, wire = [], closed = [], broken = []\<rparr>
     1 (Some (py ''alice'')) False
   = Ok (\<lparr>clients = [], locked = False, wire = [], closed = [1], broken = []\<rparr>, None)"
  by (simp add: disconnect_client_def remove_client_def sock_close_def)

section \<open>Facts about the handshake\<close>

lemma strip_Nil_iff: "strip s = [] \<longleftrightarrow> (\<forall>c\<in>set s. is_space c)"
proof -
  have "(\<forall>x\<in>set (dropWhile is_space s). is_space x) \<longleftrightarrow> dropWhile is_space s = []"
    using hd_dropWhile [of is_space s]
    by (cases "dropWhile is_space s") (auto dest: set_dropWhileD)
  then show ?thesis
    by (simp add: strip_def dropWhile_eq_Nil_conv)
qed

lemma unlock_wire:
  "\<not> locked st \<Longrightarrow> st\<lparr>locked := True, wire := w, locked := False\<rparr> = st\<lparr>wire := w\<rparr>"
  by (cases st) simp

lemma wire_update_eq [simp]: "(st\<lparr>wire := a\<rparr> = st\<lparr>wire := b\<rparr>) = (a = b)"
  by (cases st) simp

lemma send_error_eq:
  "encode (error_message text) = Some b \<Longrightarrow> sendable st c \<Longrightarrow>
   send_error st c evs text = Ok (st\<lparr>wire := wire st @ [(c, b)]\<rparr>, evs, None)"
  by (simp add: send_error_def send_message_eq)

lemma encode_invalid:
  \<open>encode (error_message (py ''Invalid username''))
     = Some ''{"type": "error", "message": "Invalid username"}\<newline>''\<close>
  by (simp add: eval_dumps)

lemma encode_taken:
  \<open>encode (error_message (py ''Username already taken''))
     = Some ''{"type": "error", "message": "Username already taken"}\<newline>''\<close>
  by (simp add: eval_dumps)

lemma get_username_join:
  assumes "receive_message evs = (JObj d, evs')" and "d \<noteq> []"
    and "dict_get d (py ''type'') JNull = JStr (py ''join'')"
    and "dict_get d (py ''username'') (JStr []) = JStr raw"
    and "\<not> locked st" and "sendable st c"
  shows "get_username st c evs =
     (if strip raw = [] \<or> 20 < length (strip raw) then
        Ok (st\<lparr>wire := wire st @ [(c, the (encode (error_message (py ''Invalid username''))))]\<rparr>, evs', None)
      else if name_taken st (strip raw) then
        Ok (st\<lparr>wire := wire st @ [(c, the (encode (error_message (py ''Username already taken''))))]\<rparr>, evs', None)
      else Ok (st, evs', Some (strip raw)))"
proof -
  have "sendable (st\<lparr>locked := True\<rparr>) c" using assms(6) by simp
  then show ?thesis
    using assms
    by (simp add: get_username_def Let_def send_error_eq [OF encode_invalid]
        send_error_eq [OF encode_taken] encode_invalid encode_taken unlock_wire not_le)
qed

lemma get_username_accepts:
  assumes "get_username st c evs = Ok (st1, evs1, Some u)"
  shows "st1 = st \<and> \<not> locked st \<and> \<not> name_taken st u"
  using assms
  by (auto simp: get_username_def send_error_def send_message_eq Let_def
      split: prod.splits if_splits json.splits)

lemma broadcast_wire:
  assumes "\<not> locked st"
  shows "\<exists>st' fs. broadcast_message st data ex = Ok st' \<and> wire st' = wire st @ fs \<and>
           (\<forall>x\<in>set fs. Some (fst x) \<noteq> ex)"
proof (cases "encode data")
  case None
  with assms show ?thesis by (simp add: broadcast_None)
next
  case (Some b)
  with assms show ?thesis by (auto simp add: broadcast_Some)
qed

section \<open>Framing of received bytes\<close>

text \<open>
  Claim C3: when a frame terminator is followed by further bytes, the reader splits at the
  first terminator, decodes the prefix and keeps the bytes after the terminator as the
  start of the next frame. The comment at line 190 of \<open>server.py\<close> says that the
  remaining data should be put back, and the code does not do it: when two frames arrive
  in one chunk, the first call returns the first message, the second frame is gone, and
  the next call finds nothing to read and returns \<open>None\<close>.
\<close>

theorem C3_remainder_is_dropped:
  \<open>receive_message [Data ''{"type": "ping"}\<newline>{"type": "chat", "message": "hi"}\<newline>'']
     = (JObj [(py ''type'', JStr (py ''ping''))], []) \<and>
   receive_message [] = (JNull, [])\<close>
  by (simp add: eval_receive eval_loads)

section \<open>Names the handshake refuses\<close>

text \<open>
  Claim C4, as the code has it: for a \<open>join\<close> message whose \<open>username\<close> is a string,
  the server answers \<open>Invalid username\<close> exactly when the name, with the whitespace
  around it removed, is empty or longer than 20 characters; there is no test of the
  characters of the name, so a valid free name is accepted whatever its characters.
\<close>

theorem C4_invalid_name:
  assumes "receive_message evs = (JObj d, evs')" and "d \<noteq> []"
    and "dict_get d (py ''type'') JNull = JStr (py ''join'')"
    and "dict_get d (py ''username'') (JStr []) = JStr raw"
    and "\<not> locked st" and "sendable st c"
  shows \<open>(get_username st c evs
            = Ok (st\<lparr>wire := wire st @
                    [(c, ''{"type": "error", "message": "Invalid username"}\<newline>'')]\<rparr>, evs', None)
          \<longleftrightarrow> strip raw = [] \<or> 20 < length (strip raw)) \<and>
         (strip raw \<noteq> [] \<and> length (strip raw) \<le> 20 \<and> \<not> name_taken st (strip raw)
          \<longrightarrow> get_username st c evs = Ok (st, evs', Some (strip raw)))\<close>
  by (simp add: get_username_join [OF assms] encode_invalid encode_taken)

theorem C4_invalid_name_witness:
  \<open>get_username \<lparr>clients = [], locked = False, wire = [], closed = [], broken = []\<rparr> 1
     [Data ''{"type": "join", "username": "  "}\<newline>'']
   = Ok (\<lparr>clients = [], locked = False,
          wire = [(1, ''{"type": "error", "message": "Invalid username"}\<newline>'')],
          closed = [], broken = []\<rparr>, [], None)\<close>
proof -
  let ?d = "[(py ''type'', JStr (py ''join'')), (py ''username'', JStr (py ''  ''))]"
  let ?st = "\<lparr>clients = [], locked = False, wire = [], closed = [], broken = []\<rparr>"
  have r: \<open>receive_message [Data ''{"type": "join", "username": "  "}\<newline>''] = (JObj ?d, [])\<close>
    by (simp add: eval_receive eval_loads)
  have s: "strip (py ''  '') = []"
    by (simp add: strip_def is_space_def py_def)
  show ?thesis
    using C4_invalid_name [OF r, of "py ''  ''" ?st 1]
    by (simp add: dict_get_def py_def sendable_def strip_def is_space_def)
qed

text \<open>
  The claim as the specification states it fails: the name \<open>bob!\<close> is accepted.
\<close>

theorem C4_bob_bang_accepted:
  \<open>get_username \<lparr>clients = [], locked = False, wire = [], closed = [], broken = []\<rparr> 1
     [Data ''{"type": "join", "username": "bob!"}\<newline>'']
   = Ok (\<lparr>clients = [], locked = False, wire = [], closed = [], broken = []\<rparr>, [],
         Some (py ''bob!''))\<close>
  by (simp add: get_username_def eval_receive eval_loads dict_get_def strip_def is_space_def
      name_taken_def)

section \<open>Chat messages\<close>

text \<open>
  Claim C7: a \<open>chat\<close> message whose content is empty or only whitespace is dropped and
  nothing is written to any socket; for a \<open>chat\<close> message with other content, the
  message that is broadcast carries the content with the whitespace around it removed,
  the name of the sender and the reading of the clock, and it is written to every
  session of the registry that can be written to.
\<close>

theorem C7_chat_dropped_or_stamped:
  assumes "\<not> locked st"
    and "dict_get d (py ''type'') JNull = JStr (py ''chat'')"
    and "dict_get d (py ''message'') (JStr []) = JStr raw"
  shows "((\<forall>ch\<in>set raw. is_space ch) \<longrightarrow>
            process_message now st c username (JObj d) = Ok st) \<and>
         (\<not> (\<forall>ch\<in>set raw. is_space ch) \<longrightarrow>
            encode (JObj [(py ''type'', JStr (py ''chat'')), (py ''username'', JStr username),
                          (py ''message'', JStr (strip raw)), (py ''timestamp'', JFloat now)])
              = Some b \<longrightarrow>
            process_message now st c username (JObj d) =
              Ok (st\<lparr>wire := wire st @
                       map (\<lambda>r. (r, b)) (filter (sendable st) (map fst (clients st)))\<rparr>))"
  using assms
  by (simp add: process_message_def Let_def strip_Nil_iff [symmetric] chat_message_def
      broadcast_Some)

theorem C7_chat_dropped_or_stamped_witness:
  \<open>process_message (py ''1.5'')
     \<lparr>clients = [(1, py ''ann''), (2, py ''bob'')], locked = False, wire = [], closed = [],
      broken = []\<rparr> 2 (py ''bob'')
     (JObj [(py ''type'', JStr (py ''chat'')), (py ''message'', JStr (py ''   ''))])
   = Ok \<lparr>clients = [(1, py ''ann''), (2, py ''bob'')], locked = False, wire = [], closed = [],
         broken = []\<rparr> \<and>
   process_message (py ''1.5'')
     \<lparr>clients = [(1, py ''ann''), (2, py ''bob'')], locked = False, wire = [], closed = [],
      broken = []\<rparr> 2 (py ''bob'')
     (JObj [(py ''type'', JStr (py ''chat'')), (py ''message'', JStr (py '' hi ''))])
   = Ok \<lparr>clients = [(1, py ''ann''), (2, py ''bob'')], locked = False,
         wire = [(1, ''{"type": "chat", "username": "bob", "message": "hi", "timestamp": 1.5}\<newline>''),
                 (2, ''{"type": "chat", "username": "bob", "message": "hi", "timestamp": 1.5}\<newline>'')],
         closed = [], broken = []\<rparr>\<close>
proof -
  let ?st = "\<lparr>clients = [(1, py ''ann''), (2, py ''bob'')], locked = False, wire = [],
              closed = [], broken = []\<rparr>"
  have e: \<open>encode (JObj [(py ''type'', JStr (py ''chat'')), (py ''username'', JStr (py ''bob'')),
                        (py ''message'', JStr (strip (py '' hi ''))), (py ''timestamp'', JFloat (py ''1.5''))])
           = Some ''{"type": "chat", "username": "bob", "message": "hi", "timestamp": 1.5}\<newline>''\<close>
    by (simp add: eval_dumps strip_def is_space_def)
  have 1: "process_message (py ''1.5'') ?st 2 (py ''bob'')
             (JObj [(py ''type'', JStr (py ''chat'')), (py ''message'', JStr (py ''   ''))]) = Ok ?st"
    using C7_chat_dropped_or_stamped [where st = ?st and raw = "py ''   ''" and now = "py ''1.5''"
        and c = 2 and username = "py ''bob''"
        and d = "[(py ''type'', JStr (py ''chat'')), (py ''message'', JStr (py ''   ''))]"]
    by (simp add: dict_get_def py_def is_space_def)
  have 2: \<open>process_message (py ''1.5'') ?st 2 (py ''bob'')
             (JObj [(py ''type'', JStr (py ''chat'')), (py ''message'', JStr (py '' hi ''))])
           = Ok (?st\<lparr>wire := wire ?st @ map (\<lambda>r. (r, ''{"type": "chat", "username": "bob", "message": "hi", "timestamp": 1.5}\<newline>''))
                   (filter (sendable ?st) (map fst (clients ?st)))\<rparr>)\<close>
    using C7_chat_dropped_or_stamped [where st = ?st and raw = "py '' hi ''" and now = "py ''1.5''"
        and c = 2 and username = "py ''bob''"
        and d = "[(py ''type'', JStr (py ''chat'')), (py ''message'', JStr (py '' hi ''))]"] e
    by (simp add: dict_get_def py_def is_space_def)
  from 1 2 show ?thesis by (simp add: sendable_def)
qed

section \<open>The join announcements\<close>

text \<open>
  Claim C8, as the code has it: for every accepted join, the server registers the name,
  first broadcasts \<open>user_joined\<close> to all other sessions, the joiner excluded, and then
  sends the joiner a \<open>welcome\<close> message whose list of users is the registry after the
  registration, which contains the name of the joiner; the first client to join as
  \<open>alice\<close> receives a welcome whose list of users is \<open>["alice"]\<close>.
\<close>

theorem C8_join_announcements:
  assumes "get_username st c evs = Ok (st1, evs1, Some username)"
    and "encode (user_joined username t1) = Some bj"
    and "encode (welcome_message username
                   (map snd (AList.update c username (clients st))) t2) = Some bw"
  shows "handle_client_join t1 t2 st c evs =
           Ok (st\<lparr>clients := AList.update c username (clients st),
                  wire := wire st @
                    map (\<lambda>r. (r, bj))
                      (filter (\<lambda>r. r \<noteq> c \<and> sendable st r)
                         (map fst (AList.update c username (clients st)))) @
                    (if sendable st c then [(c, bw)] else [])\<rparr>,
               evs1, Some username) \<and>
         username \<in> set (map snd (AList.update c username (clients st)))"
proof -
  from get_username_accepts [OF assms(1)]
  have st1: "st1 = st" and nl: "\<not> locked st" by simp_all
  let ?reg = "register st c username"
  have nlr: "\<not> locked ?reg"
    using nl by (simp add: register_def)
  have b: "broadcast_message ?reg (user_joined username t1) (Some c) =
             Ok (?reg\<lparr>wire := wire ?reg @
                    map (\<lambda>r. (r, bj))
                      (filter (\<lambda>r. Some r \<noteq> Some c \<and> sendable ?reg r) (map fst (clients ?reg)))\<rparr>)"
    by (rule broadcast_Some [OF nlr assms(2)])
  have 1: "handle_client_join t1 t2 st c evs =
           Ok (st\<lparr>clients := AList.update c username (clients st),
                  wire := wire st @
                    map (\<lambda>r. (r, bj))
                      (filter (\<lambda>r. r \<noteq> c \<and> sendable st r)
                         (map fst (AList.update c username (clients st)))) @
                    (if sendable st c then [(c, bw)] else [])\<rparr>,
               evs1, Some username)"
    using assms(1,3) st1 nl b
    by (simp add: handle_client_join_def send_message_eq register_def)
  have "(c, username) \<in> set (AList.update c username (clients st))"
    by (rule map_of_SomeD) (simp add: AList.update_conv')
  then have 2: "username \<in> set (map snd (AList.update c username (clients st)))"
    by force
  from 1 2 show ?thesis by simp
qed

theorem C8_join_announcements_witness:
  \<open>handle_client_join (py ''1.5'') (py ''2.5'')
     \<lparr>clients = [], locked = False, wire = [], closed = [], broken = []\<rparr> 1
     [Data ''{"type": "join", "username": "alice"}\<newline>'']
   = Ok (\<lparr>clients = [(1, py ''alice'')], locked = False,
          wire = [(1, ''{"type": "welcome", "message": "Welcome to the chat, alice!", "users": ["alice"], "timestamp": 2.5}\<newline>'')],
          closed = [], broken = []\<rparr>, [], Some (py ''alice''))\<close>
proof -
  let ?st = "\<lparr>clients = [], locked = False, wire = [], closed = [], broken = []\<rparr>"
  have g: \<open>get_username ?st 1 [Data ''{"type": "join", "username": "alice"}\<newline>'']
           = Ok (?st, [], Some (py ''alice''))\<close>
    by (simp add: get_username_def eval_receive eval_loads dict_get_def strip_def is_space_def
        name_taken_def)
  have ej: \<open>encode (user_joined (py ''alice'') (py ''1.5''))
            = Some ''{"type": "user_joined", "username": "alice", "message": "alice joined the chat", "timestamp": 1.5}\<newline>''\<close>
    by (simp add: eval_dumps)
  have ew: \<open>encode (welcome_message (py ''alice'')
                     (map snd (AList.update 1 (py ''alice'') (clients ?st))) (py ''2.5''))
            = Some ''{"type": "welcome", "message": "Welcome to the chat, alice!", "users": ["alice"], "timestamp": 2.5}\<newline>''\<close>
    by (simp add: eval_dumps)
  from C8_join_announcements [OF g ej ew] show ?thesis
    by (simp add: sendable_def)
qed

text \<open>
  The claim as the specification states it fails on the order: when \<open>alice\<close> joins a
  server where \<open>bob\<close> is, the \<open>user_joined\<close> notice to \<open>bob\<close> is written before the
  \<open>welcome\<close> to \<open>alice\<close>.
\<close>

theorem C8_user_joined_before_welcome:
  \<open>handle_client_join (py ''1.5'') (py ''2.5'')
     \<lparr>clients = [(1, py ''bob'')], locked = False, wire = [], closed = [], broken = []\<rparr> 2
     [Data ''{"type": "join", "username": "alice"}\<newline>'']
   = Ok (\<lparr>clients = [(1, py ''bob''), (2, py ''alice'')], locked = False,
          wire = [(1, ''{"type": "user_joined", "username": "alice", "message": "alice joined the chat", "timestamp": 1.5}\<newline>''),
                  (2, ''{"type": "welcome", "message": "Welcome to the chat, alice!", "users": ["bob", "alice"], "timestamp": 2.5}\<newline>'')],
          closed = [], broken = []\<rparr>, [], Some (py ''alice''))\<close>
  by (simp add: handle_client_join_def get_username_def eval_receive eval_loads dict_get_def
      strip_def is_space_def name_taken_def register_def broadcast_message_def
      send_message_def sock_send_def sendable_def eval_dumps)

section \<open>The sender of a chat message is a recipient\<close>

text \<open>
  Claim C10: a chat message is broadcast with no excluded session, so the sender, being
  in the registry, receives its own message back, with its name and the reading of the
  clock; the \<open>user_joined\<close> notice of a join is broadcast with the joining session
  excluded, and nothing of it is written to that session.
\<close>

theorem C10_sender_receives_own_chat:
  assumes "\<not> locked st"
    and "dict_get d (py ''type'') JNull = JStr (py ''chat'')"
    and "dict_get d (py ''message'') (JStr []) = JStr raw"
    and "strip raw \<noteq> []"
    and "encode (chat_message username (strip raw) now) = Some b"
    and "c \<in> set (map fst (clients st))" and "sendable st c"
  shows "\<exists>st' st2.
           process_message now st c username (JObj d) = Ok st' \<and>
           (c, b) \<in> set (drop (length (wire st)) (wire st')) \<and>
           broadcast_message (register st joiner name) (user_joined name t) (Some joiner) = Ok st2 \<and>
           joiner \<notin> fst ` set (drop (length (wire st)) (wire st2))"
proof -
  let ?st' = "st\<lparr>wire := wire st @
                 map (\<lambda>r. (r, b)) (filter (\<lambda>r. Some r \<noteq> None \<and> sendable st r) (map fst (clients st)))\<rparr>"
  have p: "process_message now st c username (JObj d) = Ok ?st'"
    using assms(1-5) by (simp add: process_message_def Let_def broadcast_Some)
  have m: "(c, b) \<in> set (drop (length (wire st)) (wire ?st'))"
    using assms(6,7) by auto
  have "\<not> locked (register st joiner name)"
    using assms(1) by (simp add: register_def)
  from broadcast_wire [OF this, of "user_joined name t" "Some joiner"]
  obtain st2 fs where
    b2: "broadcast_message (register st joiner name) (user_joined name t) (Some joiner) = Ok st2"
    and w2: "wire st2 = wire (register st joiner name) @ fs"
    and f2: "\<forall>x\<in>set fs. Some (fst x) \<noteq> Some joiner"
    by blast
  have "joiner \<notin> fst ` set (drop (length (wire st)) (wire st2))"
    using w2 f2 by (auto simp: register_def)
  with p m b2 show ?thesis by blast
qed

theorem C10_sender_receives_own_chat_witness:
  \<open>\<exists>st'. process_message (py ''1.5'')
           \<lparr>clients = [(1, py ''ann''), (2, py ''bob'')], locked = False, wire = [],
            closed = [], broken = []\<rparr> 2 (py ''bob'')
           (JObj [(py ''type'', JStr (py ''chat'')), (py ''message'', JStr (py ''hi''))]) = Ok st' \<and>
         (2, ''{"type": "chat", "username": "bob", "message": "hi", "timestamp": 1.5}\<newline>'')
           \<in> set (wire st')\<close>
proof -
  let ?st = "\<lparr>clients = [(1, py ''ann''), (2, py ''bob'')], locked = False, wire = [],
              closed = [], broken = []\<rparr>"
  have s: "strip (py ''hi'') = py ''hi''"
    by (simp add: strip_def is_space_def py_def)
  have e: \<open>encode (chat_message (py ''bob'') (strip (py ''hi'')) (py ''1.5''))
           = Some ''{"type": "chat", "username": "bob", "message": "hi", "timestamp": 1.5}\<newline>''\<close>
    unfolding s by (simp add: eval_dumps)
  have n: "strip (py ''hi'') \<noteq> []"
    unfolding s by (simp add: py_def)
  from C10_sender_receives_own_chat [where st = ?st and c = 2 and raw = "py ''hi''"
      and d = "[(py ''type'', JStr (py ''chat'')), (py ''message'', JStr (py ''hi''))]"
      and username = "py ''bob''" and now = "py ''1.5''" and joiner = 3
      and name = "py ''cy''" and t = "py ''2.5''", OF _ _ _ n e]
  show ?thesis
    by (auto simp add: dict_get_def py_def sendable_def)
qed

section \<open>One terminator per frame\<close>

lemma printable_Nil [simp]: "printable []"
  by (simp add: printable_def)

lemma printable_Cons [simp]: "printable (c # s) \<longleftrightarrow> 32 \<le> c \<and> c \<le> 126 \<and> printable s"
  by (auto simp: printable_def)

lemma printable_append [simp]: "printable (s @ t) \<longleftrightarrow> printable s \<and> printable t"
  by (auto simp: printable_def)

lemma printable_py [simp]:
  "printable (py ''null'')" "printable (py ''true'')" "printable (py ''false'')"
  "printable (py '', '')" "printable (py '': '')"
  by (simp_all add: py_def)

lemma printable_digits: "printable (digits n)"
proof (induction n rule: digits.induct)
  case (1 n)
  show ?case
  proof (cases "n < 10")
    case True
    then show ?thesis by (simp add: digits.simps [of n])
  next
    case False
    with 1 have "printable (digits (n div 10))" by simp
    moreover have "n mod 10 < 10" by simp
    ultimately show ?thesis
      using False by (simp add: digits.simps [of n])
  qed
qed

lemma printable_int_repr: "printable (int_repr i)"
  by (simp add: int_repr_def printable_digits)

lemma hex_digit_printable: "d < 16 \<Longrightarrow> 32 \<le> hex_digit d \<and> hex_digit d \<le> 126"
  by (simp add: hex_digit_def)

lemma printable_u_escape: "printable (u_escape n)"
  by (simp add: u_escape_def hex_digit_printable)

lemma printable_escape_char: "printable (escape_char c)"
  by (simp add: escape_char_def printable_u_escape)

lemma printable_concat: "(\<forall>x\<in>set xs. printable x) \<Longrightarrow> printable (concat xs)"
  by (induction xs) simp_all

lemma printable_basestring: "printable (encode_basestring_ascii s)"
  by (simp add: encode_basestring_ascii_def printable_concat printable_escape_char)

lemma printable_join:
  "printable sep \<Longrightarrow> (\<forall>x\<in>set xs. printable x) \<Longrightarrow> printable (join sep xs)"
  by (induction sep xs rule: join.induct) simp_all

lemma printable_float: "float_text t \<Longrightarrow> printable t"
  by (auto simp: float_text_def printable_def is_digit_def)

lemma printable_dumps: "floats_ok m \<Longrightarrow> printable (dumps m)"
proof (induction m)
  case (JArr xs)
  then show ?case by (simp add: printable_join)
next
  case (JObj kvs)
  then have "\<forall>kv\<in>set kvs. printable (dumps (snd kv))"
    by (auto simp: snds.simps)
  then show ?case
    by (simp add: printable_join printable_basestring)
qed (simp_all add: printable_int_repr printable_basestring printable_float)

lemma utf8_encode_ascii: "(\<forall>c\<in>set s. c < 128) \<Longrightarrow> utf8_encode s = Some (map char_of s)"
  by (induction s) (simp_all add: utf8_char_def)

lemma encode_printable:
  assumes "floats_ok m"
  shows "encode m = Some (map char_of (dumps m) @ [CHR ''\<newline>''])"
proof -
  have "\<forall>c\<in>set (dumps m @ [10]). c < 128"
    using printable_dumps [OF assms] by (auto simp: printable_def)
  then have "encode m = Some (map char_of (dumps m @ [10]))"
    unfolding encode_def by (rule utf8_encode_ascii)
  then show ?thesis by (simp add: char_of_eq_iff)
qed

text \<open>
  Claim C6: for every message value, \<open>encode\<close> produces exactly one newline byte, the
  last byte of the output; a newline inside a string of the message is written as the
  two characters of its escape and never as a newline byte. (The text of every float in
  the value is that of a float.)
\<close>

theorem C6_one_terminator_at_end:
  assumes "floats_ok m"
  shows "\<exists>payload. encode m = Some (payload @ [CHR ''\<newline>'']) \<and> CHR ''\<newline>'' \<notin> set payload"
proof -
  have "CHR ''\<newline>'' \<notin> set (map char_of (dumps m))"
  proof
    assume "CHR ''\<newline>'' \<in> set (map char_of (dumps m))"
    then obtain c where c: "c \<in> set (dumps m)" and "char_of c = CHR ''\<newline>''" by auto
    then have "take_bit 8 c = 10" by (simp add: char_of_eq_iff)
    moreover have "32 \<le> c \<and> c \<le> 126"
      using printable_dumps [OF assms] c by (simp add: printable_def)
    ultimately show False by (simp add: take_bit_eq_mod)
  qed
  with encode_printable [OF assms] show ?thesis by blast
qed

theorem C6_one_terminator_at_end_witness:
  \<open>floats_ok (chat_message (py ''bob'') [108, 10, 233] (py ''1.5'')) \<and>
   encode (chat_message (py ''bob'') [108, 10, 233] (py ''1.5''))
     = Some (''{"type": "chat", "username": "bob", "message": "l'' @ [CHR 0x5C] @ ''n'' @ [CHR 0x5C] @ ''u00e9", "timestamp": 1.5}'' @ [CHR ''\<newline>''])\<close>
proof -
  have f: "floats_ok (chat_message (py ''bob'') [108, 10, 233] (py ''1.5''))"
    by (simp add: chat_message_def float_text_def is_digit_def py_def)
  from C6_one_terminator_at_end [OF f] show ?thesis
    using f by (simp add: eval_dumps u_escape_def hex_digit_def)
qed

end
